theory Spec2Isabelle
  imports Main
begin

section \<open>JavaScript values and strings\<close>

text \<open>
  The handlers of \<^verbatim>\<open>backend/handlers/chat.ts\<close> exchange plain JavaScript objects that are
  serialised with \<^verbatim>\<open>JSON.stringify\<close> and read back with \<^verbatim>\<open>JSON.parse\<close>. They are modelled
  as JSON values; an object is its list of properties in insertion order (keys distinct,
  as in a JavaScript object). Strings are lists of code units; numbers that occur
  (status codes, timestamps) are integers.
\<close>

datatype json =
    JNull
  | JBool bool
  | JNum int
  | JStr string
  | JArr "json list"
  | JObj "(string \<times> json) list"

text \<open>A thrown JavaScript value: an \<^verbatim>\<open>Error\<close> instance (whether it is an instance of the
  SDK's \<^verbatim>\<open>AbortError\<close> class, its \<^verbatim>\<open>name\<close>, its \<^verbatim>\<open>message\<close>) or any other value,
  kept as its \<^verbatim>\<open>String(v)\<close>.\<close>

datatype thrown =
    JsError (sdk_abort: bool) (err_name: string) (err_message: string)
  | JsValue string

text \<open>\<^verbatim>\<open>error instanceof Error ? error.message : String(error)\<close>\<close>

fun error_text :: "thrown \<Rightarrow> string" where
  "error_text (JsError _ _ m) = m"
| "error_text (JsValue s) = s"

text \<open>Property read \<^verbatim>\<open>v.type\<close> on a non-null value; \<open>None\<close> is \<^verbatim>\<open>undefined\<close>.\<close>

fun type_of :: "json \<Rightarrow> json option" where
  "type_of (JObj kvs) = map_of kvs ''type''"
| "type_of _ = None"

text \<open>The characters \<^verbatim>\<open>String.prototype.trim\<close> removes, among the code units below 256.\<close>

definition is_js_space :: "char \<Rightarrow> bool" where
  "is_js_space c = (c \<in> set [CHR 0x09, CHR 0x0A, CHR 0x0B, CHR 0x0C, CHR 0x0D, CHR 0x20, CHR 0xA0])"

definition js_trim :: "string \<Rightarrow> string" where
  "js_trim s = rev (dropWhile is_js_space (rev (dropWhile is_js_space s)))"

text \<open>\<^verbatim>\<open>s.split('\n')\<close>: always at least one piece.\<close>

fun split_nl :: "string \<Rightarrow> string list" where
  "split_nl [] = [[]]"
| "split_nl (c # cs) =
     (if c = CHR 0x0A then [] # split_nl cs
      else (case split_nl cs of [] \<Rightarrow> [[c]] | l # ls \<Rightarrow> (c # l) # ls))"

text \<open>Template-literal rendering of a non-negative integer (\<^verbatim>\<open>${response.status}\<close>).\<close>

definition digit_char :: "nat \<Rightarrow> char" where
  "digit_char d = ''0123456789'' ! (d mod 10)"

fun show_nat :: "nat \<Rightarrow> string" where
  "show_nat n = (if n < 10 then [digit_char n] else show_nat (n div 10) @ [digit_char (n mod 10)])"

declare show_nat.simps [simp del]

section \<open>Mentions: \<^verbatim>\<open>message.match(/@(\w+(?:-\w+)*)/g)\<close>\<close>

text \<open>\<^verbatim>\<open>\w\<close> without the unicode flag is \<^verbatim>\<open>[A-Za-z0-9_]\<close>.\<close>

definition is_word_char :: "char \<Rightarrow> bool" where
  "is_word_char c =
     (c \<in> set ''abcdefghijklmnopqrstuvwxyzABCDEFGHIJKLMNOPQRSTUVWXYZ0123456789_'')"

text \<open>
  The greedy tail \<^verbatim>\<open>(?:-\w+)*\<close>: as long as a hyphen is followed by a word character, the
  hyphen and the longest run of word characters are consumed. Returns the text consumed
  and the rest of the input.
\<close>

function match_groups :: "string \<Rightarrow> string \<times> string" where
  "match_groups s =
     (case s of
        [] \<Rightarrow> ([], s)
      | c # t \<Rightarrow>
          (if c = CHR ''-'' \<and> takeWhile is_word_char t \<noteq> [] then
             (case match_groups (dropWhile is_word_char t) of
                (g, r) \<Rightarrow> (c # takeWhile is_word_char t @ g, r))
           else ([], s)))"
  by pat_completeness auto
termination
  by (relation "measure length") (auto intro: le_imp_less_Suc length_dropWhile_le)

declare match_groups.simps [simp del]

lemma match_groups_rest_le: "length (snd (match_groups s)) \<le> length s"
proof (induction s rule: match_groups.induct)
  case (1 s)
  show ?case
  proof (cases s)
    case Nil
    then show ?thesis by (simp add: match_groups.simps)
  next
    case (Cons c t)
    show ?thesis
    proof (cases "c = CHR ''-'' \<and> takeWhile is_word_char t \<noteq> []")
      case True
      have "length (snd (match_groups (dropWhile is_word_char t))) \<le> length (dropWhile is_word_char t)"
        using "1.IH" [OF Cons True] .
      also have "\<dots> \<le> length t" by (rule length_dropWhile_le)
      finally show ?thesis using Cons True
        by (subst match_groups.simps) (auto split: prod.splits)
    next
      case False
      then show ?thesis using Cons by (subst match_groups.simps) auto
    qed
  qed
qed

text \<open>
  All matches of the global regular expression, left to right, each search resuming
  where the previous match ended. The empty list stands for the \<^verbatim>\<open>null\<close> that
  \<^verbatim>\<open>String.prototype.match\<close> returns when nothing matches (it never returns an empty
  array).
\<close>

function mention_matches :: "string \<Rightarrow> string list" where
  "mention_matches [] = []"
| "mention_matches (c # s) =
     (if c = CHR ''@'' \<and> takeWhile is_word_char s \<noteq> [] then
        (c # takeWhile is_word_char s @ fst (match_groups (dropWhile is_word_char s)))
          # mention_matches (snd (match_groups (dropWhile is_word_char s)))
      else mention_matches s)"
  by pat_completeness auto
termination
proof (relation "measure length")
  show "wf (measure length)" by simp
next
  fix c :: char and s :: string
  have "length (snd (match_groups (dropWhile is_word_char s))) \<le> length (dropWhile is_word_char s)"
    by (rule match_groups_rest_le)
  also have "\<dots> \<le> length s" by (rule length_dropWhile_le)
  finally show "(snd (match_groups (dropWhile is_word_char s)), c # s) \<in> measure length"
    by simp
next
  fix c :: char and s :: string
  show "(s, c # s) \<in> measure length" by simp
qed

section \<open>Request classification in \<^verbatim>\<open>handleChatRequest\<close>\<close>

record agent =
  agent_id :: string
  agent_name :: string
  agent_description :: string
  apiEndpoint :: "string option"
  workingDirectory :: "string option"
  isOrchestrator :: bool

text \<open>The generator that \<^verbatim>\<open>handleChatRequest\<close> assigns to \<^verbatim>\<open>executionMethod\<close>:
  \<^verbatim>\<open>executeClaudeCommand\<close>, \<^verbatim>\<open>executeAgentHttpRequest(mentionedAgent, ...)\<close> or
  \<^verbatim>\<open>executeOrchestratorWorkflow\<close>.\<close>

datatype strategy = Local | RemoteSingle agent | Orchestrate

text \<open>
  \<^verbatim>\<open>shouldUseOrchestrator\<close>. The provider registry module is not part of the sources, so
  the id of the provider registered for the agent \<^verbatim>\<open>"orchestrator"\<close>
  (\<^verbatim>\<open>globalRegistry.getProviderForAgent("orchestrator")?.id\<close>) is the first argument;
  \<open>None\<close> is \<^verbatim>\<open>undefined\<close>. The optional \<^verbatim>\<open>availableAgents\<close> is an option.
\<close>

definition shouldUseOrchestrator :: "string option \<Rightarrow> string \<Rightarrow> agent list option \<Rightarrow> bool" where
  "shouldUseOrchestrator orchestratorProviderId message availableAgents =
     (if orchestratorProviderId \<noteq> Some ''anthropic'' then False
      else (case availableAgents of
              None \<Rightarrow> False
            | Some agents \<Rightarrow>
                (if length agents > 0 then length (mention_matches message) > 1 else False)))"

text \<open>The routing part of \<^verbatim>\<open>handleChatRequest\<close> (the \<^verbatim>\<open>if (useOrchestrator)\<close> cascade).\<close>

definition select_strategy :: "string option \<Rightarrow> string \<Rightarrow> agent list option \<Rightarrow> strategy" where
  "select_strategy orchestratorProviderId message availableAgents =
     (if shouldUseOrchestrator orchestratorProviderId message availableAgents then
        (case (mention_matches message, availableAgents) of
           ([m], Some agents) \<Rightarrow>
             (case find (\<lambda>a. agent_id a = drop 1 m) (filter (\<lambda>a. \<not> isOrchestrator a) agents) of
                Some mentionedAgent \<Rightarrow> RemoteSingle mentionedAgent
              | None \<Rightarrow> Orchestrate)
         | _ \<Rightarrow> Orchestrate)
      else Local)"

section \<open>Stream events and the cancellation registry\<close>

text \<open>The \<^verbatim>\<open>StreamResponse\<close> objects the generators of \<^verbatim>\<open>chat.ts\<close> build themselves.\<close>

definition done_event :: json where
  "done_event = JObj [(''type'', JStr ''done'')]"

definition aborted_event :: json where
  "aborted_event = JObj [(''type'', JStr ''aborted'')]"

definition error_event :: "string \<Rightarrow> json" where
  "error_event m = JObj [(''type'', JStr ''error''), (''error'', JStr m)]"

definition claude_json_event :: "json \<Rightarrow> json" where
  "claude_json_event d = JObj [(''type'', JStr ''claude_json''), (''data'', d)]"


text \<open>\<^verbatim>\<open>requestAbortControllers: Map<string, AbortController>\<close>; of a controller only
  \<^verbatim>\<open>signal.aborted\<close> is kept.\<close>

record abort_controller =
  signal_aborted :: bool

type_synonym registry = "string \<rightharpoonup> abort_controller"

text \<open>The \<^verbatim>\<open>finally\<close> block shared by the three generators:
  \<^verbatim>\<open>if (requestAbortControllers.has(requestId)) requestAbortControllers.delete(requestId)\<close>.\<close>

definition cleanup :: "registry \<Rightarrow> string \<Rightarrow> registry" where
  "cleanup requestAbortControllers requestId =
     (if requestId \<in> dom requestAbortControllers
      then requestAbortControllers(requestId := None)
      else requestAbortControllers)"

text \<open>What a generator has done once it has run to completion under a consumer that
  pulls every event (the \<^verbatim>\<open>for await\<close> loop of \<^verbatim>\<open>handleChatRequest\<close>).\<close>

record run =
  events :: "json list"
  controllers :: registry

section \<open>The remote delegate: \<^verbatim>\<open>executeAgentHttpRequest\<close>\<close>

record claude_auth =
  accessToken :: string
  refreshToken :: string
  expiresAt :: int
  userId :: string
  subscriptionType :: string
  email_address :: string
  uuid :: string

definition claude_auth_json :: "claude_auth \<Rightarrow> json" where
  "claude_auth_json a =
     JObj [(''accessToken'', JStr (accessToken a)), (''refreshToken'', JStr (refreshToken a)),
           (''expiresAt'', JNum (expiresAt a)), (''userId'', JStr (userId a)),
           (''subscriptionType'', JStr (subscriptionType a)),
           (''account'', JObj [(''email_address'', JStr (email_address a)),
                               (''uuid'', JStr (uuid a))])]"

text \<open>A property whose value is \<^verbatim>\<open>undefined\<close> is left out by \<^verbatim>\<open>JSON.stringify\<close>.\<close>

fun opt_prop :: "string \<Rightarrow> json option \<Rightarrow> (string \<times> json) list" where
  "opt_prop k None = []"
| "opt_prop k (Some v) = [(k, v)]"

definition agentChatRequest :: "agent \<Rightarrow> string \<Rightarrow> string \<Rightarrow> string option \<Rightarrow> claude_auth option \<Rightarrow> json" where
  "agentChatRequest agent message requestId sessionId claudeAuth =
     JObj ([(''message'', JStr message)]
           @ opt_prop ''sessionId'' (map_option JStr sessionId)
           @ [(''requestId'', JStr requestId)]
           @ opt_prop ''workingDirectory'' (map_option JStr (workingDirectory agent))
           @ opt_prop ''claudeAuth'' (map_option claude_auth_json claudeAuth))"

text \<open>\<^verbatim>\<open>`${agent.apiEndpoint}/api/chat`\<close>\<close>

definition chat_url :: "agent \<Rightarrow> string" where
  "chat_url agent =
     (case apiEndpoint agent of None \<Rightarrow> ''undefined'' | Some e \<Rightarrow> e) @ ''/api/chat''"

text \<open>
  One \<^verbatim>\<open>reader.read()\<close> raced against the 30 second timer: a chunk (as the text the
  streaming decoder returns for it), the timer winning, or the read rejecting. The body of
  a response is the list of these outcomes; after the last one the reader reports
  \<^verbatim>\<open>done\<close>.
\<close>

datatype read_result = Chunk string | ReadTimeout | ReadFails thrown

record http_response =
  status :: nat
  statusText :: string
  text_body :: "string option"
  body :: "read_result list option"

datatype fetch_result = FetchFails thrown | FetchResponse http_response

text \<open>\<^verbatim>\<open>chunk.split('\n').filter(line => line.trim())\<close>\<close>

definition chunk_lines :: "string \<Rightarrow> string list" where
  "chunk_lines chunk = filter (\<lambda>line. js_trim line \<noteq> []) (split_nl chunk)"

text \<open>
  The \<^verbatim>\<open>for (const line of lines)\<close> loop; \<^verbatim>\<open>JSON.parse\<close> is the first argument
  (\<open>None\<close>: it throws). The result is the events yielded and whether the generator
  returned. A parsed \<^verbatim>\<open>null\<close> is yielded, then reading its \<^verbatim>\<open>type\<close> throws inside the
  same \<^verbatim>\<open>try\<close>, and the loop goes on: as for any value whose type is neither \<^verbatim>\<open>done\<close> nor
  \<^verbatim>\<open>error\<close>.
\<close>

fun process_lines :: "(string \<Rightarrow> json option) \<Rightarrow> string list \<Rightarrow> json list \<times> bool" where
  "process_lines parse [] = ([], False)"
| "process_lines parse (line # rest) =
     (case parse line of
        None \<Rightarrow> process_lines parse rest
      | Some streamResponse \<Rightarrow>
          (if type_of streamResponse = Some (JStr ''done'')
              \<or> type_of streamResponse = Some (JStr ''error'')
           then ([streamResponse], True)
           else (case process_lines parse rest of
                   (evs, returned) \<Rightarrow> (streamResponse # evs, returned))))"

datatype loop_exit = ReaderDone | Returned | Threw thrown

text \<open>The \<^verbatim>\<open>while (true)\<close> read loop: events yielded, number of \<^verbatim>\<open>reader.read()\<close> calls
  made, and how the loop was left.\<close>

fun read_loop :: "(string \<Rightarrow> json option) \<Rightarrow> read_result list \<Rightarrow> json list \<times> nat \<times> loop_exit" where
  "read_loop parse [] = ([], 1, ReaderDone)"
| "read_loop parse (ReadTimeout # later) =
     ([], 1, Threw (JsError False ''Error'' ''Stream read timeout after 30 seconds''))"
| "read_loop parse (ReadFails e # later) = ([], 1, Threw e)"
| "read_loop parse (Chunk chunk # later) =
     (case process_lines parse (chunk_lines chunk) of
        (evs, True) \<Rightarrow> (evs, 1, Returned)
      | (evs, False) \<Rightarrow>
          (case read_loop parse later of (evs', n, ex) \<Rightarrow> (evs @ evs', Suc n, ex)))"

text \<open>The message of the \<^verbatim>\<open>Error\<close> thrown for a response that is not \<^verbatim>\<open>ok\<close>.\<close>

definition http_error_message :: "agent \<Rightarrow> http_response \<Rightarrow> string" where
  "http_error_message agent response =
     (if status response = 401 \<or> status response = 403 then
        ''Authentication failed for agent '' @ agent_id agent
          @ ''. Please check OAuth credentials. Status: '' @ show_nat (status response)
      else if 500 \<le> status response then
        ''Agent '' @ agent_id agent @ '' server error ('' @ show_nat (status response) @ ''): ''
          @ (case text_body response of
               None \<Rightarrow> ''Unable to read error response'' | Some errorText \<Rightarrow> errorText)
      else
        ''HTTP error from agent '' @ agent_id agent @ ''! status: ''
          @ show_nat (status response) @ '' - '' @ statusText response)"

text \<open>The body of the outer \<^verbatim>\<open>try\<close>, from the \<^verbatim>\<open>fetch\<close> on: events yielded, reads made, and
  the value thrown into the \<^verbatim>\<open>catch\<close>, if any.\<close>

definition http_try :: "(string \<Rightarrow> json option) \<Rightarrow> agent \<Rightarrow> fetch_result \<Rightarrow> json list \<times> nat \<times> thrown option" where
  "http_try parse agent fetched =
     (case fetched of
        FetchFails e \<Rightarrow> ([], 0, Some e)
      | FetchResponse response \<Rightarrow>
          (if 200 \<le> status response \<and> status response \<le> 299 then
             (case body response of
                None \<Rightarrow> ([], 0, Some (JsError False ''Error'' ''No response body from agent endpoint''))
              | Some reads \<Rightarrow>
                  (case read_loop parse reads of
                     (evs, n, ReaderDone) \<Rightarrow> (evs @ [done_event], n, None)
                   | (evs, n, Returned) \<Rightarrow> (evs, n, None)
                   | (evs, n, Threw e) \<Rightarrow> (evs, n, Some e)))
           else ([], 0, Some (JsError False ''Error'' (http_error_message agent response)))))"

text \<open>\<^verbatim>\<open>error instanceof Error && error.name === 'AbortError'\<close>\<close>

fun is_abort_by_name :: "thrown \<Rightarrow> bool" where
  "is_abort_by_name (JsError _ n _) = (n = ''AbortError'')"
| "is_abort_by_name (JsValue _) = False"

record http_run = run +
  reads :: nat

definition executeAgentHttpRequest ::
  "(string \<Rightarrow> json option) \<Rightarrow> (string \<Rightarrow> json \<Rightarrow> fetch_result) \<Rightarrow> agent \<Rightarrow> string \<Rightarrow> string
     \<Rightarrow> registry \<Rightarrow> string option \<Rightarrow> claude_auth option \<Rightarrow> http_run" where
  "executeAgentHttpRequest parse fetch agent message requestId requestAbortControllers sessionId claudeAuth =
     (case http_try parse agent
             (fetch (chat_url agent) (agentChatRequest agent message requestId sessionId claudeAuth)) of
        (evs, n, failure) \<Rightarrow>
          \<lparr>events =
             (case failure of
                None \<Rightarrow> evs
              | Some error \<Rightarrow>
                  evs @ [if is_abort_by_name error then aborted_event
                         else error_event (error_text error)]),
           controllers =
             cleanup (requestAbortControllers(requestId \<mapsto> \<lparr>signal_aborted = False\<rparr>)) requestId,
           reads = n\<rparr>)"

text \<open>Lines of the peer's NDJSON stream used in the examples below.\<close>

definition peer_aborted_line :: string where
  \<open>peer_aborted_line = ''{"type":"aborted"}''\<close>

definition peer_done_line :: string where
  \<open>peer_done_line = ''{"type":"done"}''\<close>

definition peer_text_line :: string where
  \<open>peer_text_line = ''{"type":"text_delta","text":"hi"}''\<close>

definition peer_text_event :: json where
  "peer_text_event = JObj [(''type'', JStr ''text_delta''), (''text'', JStr ''hi'')]"

text \<open>A stand-in for \<^verbatim>\<open>JSON.parse\<close> on the lines of the examples: it parses exactly the three
  lines above and throws on everything else that occurs there (fragments, garbage).\<close>

definition example_parse :: "string \<Rightarrow> json option" where
  "example_parse =
     map_of [(peer_aborted_line, aborted_event), (peer_done_line, done_event),
             (peer_text_line, peer_text_event)]"

definition db_agent :: agent where
  "db_agent = \<lparr>agent_id = ''db-agent'', agent_name = ''DB'', agent_description = ''database'',
               apiEndpoint = Some ''http://peer'', workingDirectory = Some ''/srv'',
               isOrchestrator = False\<rparr>"

definition ok_response :: "read_result list \<Rightarrow> http_response" where
  "ok_response rs = \<lparr>status = 200, statusText = ''OK'', text_body = None, body = Some rs\<rparr>"

section \<open>The orchestrator planner: \<^verbatim>\<open>executeOrchestratorWorkflow\<close>\<close>

type_synonym env = "string \<rightharpoonup> string"

text \<open>JavaScript \<^verbatim>\<open>a || b\<close> on strings that may be \<^verbatim>\<open>undefined\<close>: \<^verbatim>\<open>a\<close> when it is a
  non-empty string, otherwise \<^verbatim>\<open>b\<close>.\<close>

definition or_else :: "string option \<Rightarrow> string option \<Rightarrow> string option" where
  "or_else a b = (case a of Some (c # cs) \<Rightarrow> a | _ \<Rightarrow> b)"

text \<open>\<^verbatim>\<open>sessionId || `anthropic-${Date.now()}`\<close>\<close>

definition session_id :: "string option \<Rightarrow> nat \<Rightarrow> string" where
  "session_id sessionId now =
     (case sessionId of Some (c # cs) \<Rightarrow> c # cs | _ \<Rightarrow> ''anthropic-'' @ show_nat now)"

text \<open>Assignment \<^verbatim>\<open>obj[key] = value\<close> on an object kept as its property list, and the
  object spread \<^verbatim>\<open>{...a, ...b}\<close>.\<close>

fun obj_set :: "(string \<times> 'v) list \<Rightarrow> string \<Rightarrow> 'v \<Rightarrow> (string \<times> 'v) list" where
  "obj_set [] key v = [(key, v)]"
| "obj_set ((k, w) # kvs) key v = (if k = key then (k, v) # kvs else (k, w) # obj_set kvs key v)"

definition obj_spread :: "(string \<times> 'v) list \<Rightarrow> (string \<times> 'v) list \<Rightarrow> (string \<times> 'v) list" where
  "obj_spread a b = fold (\<lambda>(k, v) acc. obj_set acc k v) b a"

text \<open>A content block of the assistant message under construction: a text block (its
  \<^verbatim>\<open>text\<close> may be absent), a \<^verbatim>\<open>tool_use\<close> block (id, name, input), or any other block.\<close>

datatype content_block =
    TextBlock "string option"
  | ToolUseBlock string string json
  | OtherBlock json

datatype delta = TextDelta string | InputJsonDelta string | OtherDelta

text \<open>The stream events of the Anthropic SDK that the loop distinguishes:
  \<^verbatim>\<open>message_start\<close> (id, role, model, usage), \<^verbatim>\<open>content_block_start\<close>,
  \<^verbatim>\<open>content_block_delta\<close>, \<^verbatim>\<open>message_delta\<close> (stop reason, stop sequence, optional usage),
  \<^verbatim>\<open>content_block_stop\<close>, \<^verbatim>\<open>message_stop\<close>, and anything else.\<close>

datatype stream_chunk =
    MessageStart string string string "(string \<times> json) list"
  | ContentBlockStart content_block
  | ContentBlockDelta delta
  | MessageDelta json json "(string \<times> json) list option"
  | ContentBlockStop
  | MessageStop
  | OtherChunk

record current_message =
  cm_id :: string
  cm_role :: string
  cm_model :: string
  cm_content :: "content_block list"
  stop_reason :: json
  stop_sequence :: json
  cm_usage :: "(string \<times> json) list"

text \<open>
  The loop's two variables. \<^verbatim>\<open>message_stop\<close> stores the array \<^verbatim>\<open>currentContent\<close> itself in
  \<^verbatim>\<open>currentMessage.content\<close>; the field is read only there, right after the assignment, so
  keeping a copy in \<open>cm_content\<close> shows the same events.
\<close>

record orch_state =
  currentMessage :: "current_message option"
  currentContent :: "content_block list"

definition block_json :: "content_block \<Rightarrow> json" where
  "block_json b =
     (case b of
        TextBlock t \<Rightarrow> JObj ((''type'', JStr ''text'') # opt_prop ''text'' (map_option JStr t))
      | ToolUseBlock i n inp \<Rightarrow>
          JObj [(''type'', JStr ''tool_use''), (''id'', JStr i), (''name'', JStr n), (''input'', inp)]
      | OtherBlock j \<Rightarrow> j)"

definition message_json :: "current_message \<Rightarrow> json" where
  "message_json m =
     JObj [(''id'', JStr (cm_id m)), (''type'', JStr ''message''), (''role'', JStr (cm_role m)),
           (''model'', JStr (cm_model m)), (''content'', JArr (map block_json (cm_content m))),
           (''stop_reason'', stop_reason m), (''stop_sequence'', stop_sequence m),
           (''usage'', JObj (cm_usage m))]"

text \<open>\<^verbatim>\<open>currentContent[currentContent.length - 1]\<close>, updated in place when the array is not
  empty.\<close>

fun on_last :: "('a \<Rightarrow> 'a) \<Rightarrow> 'a list \<Rightarrow> 'a list" where
  "on_last f [] = []"
| "on_last f [b] = [f b]"
| "on_last f (b # bs) = b # on_last f bs"

text \<open>\<^verbatim>\<open>content_block_start\<close>: a \<^verbatim>\<open>tool_use\<close> block starts with the empty string as input.\<close>

fun open_block :: "content_block \<Rightarrow> content_block" where
  "open_block (ToolUseBlock i n inp) = ToolUseBlock i n (JStr [])"
| "open_block b = b"

text \<open>\<^verbatim>\<open>text_delta\<close>: \<^verbatim>\<open>lastContent.text = (lastContent.text || "") + chunk.delta.text\<close>\<close>

fun add_text :: "string \<Rightarrow> content_block \<Rightarrow> content_block" where
  "add_text d (TextBlock t) = TextBlock (Some ((case t of None \<Rightarrow> [] | Some old \<Rightarrow> old) @ d))"
| "add_text d b = b"

text \<open>\<^verbatim>\<open>input_json_delta\<close>: an input that is not a string is reset to the empty string, then
  the partial JSON is appended.\<close>

fun add_partial_json :: "string \<Rightarrow> content_block \<Rightarrow> content_block" where
  "add_partial_json p (ToolUseBlock i n inp) =
     ToolUseBlock i n (JStr ((case inp of JStr acc \<Rightarrow> acc | _ \<Rightarrow> []) @ p))"
| "add_partial_json p b = b"

text \<open>\<^verbatim>\<open>content_block_stop\<close>: a string input with a non-blank trim is parsed; when
  \<^verbatim>\<open>JSON.parse\<close> throws, the \<^verbatim>\<open>catch\<close> only logs and the string stays.\<close>

fun close_block :: "(string \<Rightarrow> json option) \<Rightarrow> content_block \<Rightarrow> content_block" where
  "close_block parse (ToolUseBlock i n (JStr acc)) =
     (if js_trim acc \<noteq> [] then
        (case parse acc of
           Some parsed \<Rightarrow> ToolUseBlock i n parsed
         | None \<Rightarrow> ToolUseBlock i n (JStr acc))
      else ToolUseBlock i n (JStr acc))"
| "close_block parse b = b"

text \<open>One iteration of \<^verbatim>\<open>for await (const chunk of stream)\<close>: the new state and the events
  yielded. The second argument is the session id the iteration would report.\<close>

fun orchestrator_step ::
  "(string \<Rightarrow> json option) \<Rightarrow> string \<Rightarrow> stream_chunk \<Rightarrow> orch_state \<Rightarrow> orch_state \<times> json list" where
  "orchestrator_step parse sid (MessageStart i r m u) st =
     (st\<lparr>currentMessage := Some \<lparr>cm_id = i, cm_role = r, cm_model = m, cm_content = [],
                                  stop_reason = JNull, stop_sequence = JNull, cm_usage = u\<rparr>\<rparr>, [])"
| "orchestrator_step parse sid (ContentBlockStart b) st =
     (st\<lparr>currentContent := currentContent st @ [open_block b]\<rparr>, [])"
| "orchestrator_step parse sid (ContentBlockDelta (TextDelta d)) st =
     (st\<lparr>currentContent := on_last (add_text d) (currentContent st)\<rparr>, [])"
| "orchestrator_step parse sid (ContentBlockDelta (InputJsonDelta p)) st =
     (st\<lparr>currentContent := on_last (add_partial_json p) (currentContent st)\<rparr>, [])"
| "orchestrator_step parse sid (ContentBlockDelta OtherDelta) st = (st, [])"
| "orchestrator_step parse sid (MessageDelta sr ss u) st =
     (case currentMessage st of
        None \<Rightarrow> (st, [])
      | Some cm \<Rightarrow>
          (st\<lparr>currentMessage := Some (cm\<lparr>stop_reason := sr, stop_sequence := ss,
                 cm_usage := (case u of None \<Rightarrow> cm_usage cm
                                      | Some new \<Rightarrow> obj_spread (cm_usage cm) new)\<rparr>)\<rparr>, []))"
| "orchestrator_step parse sid ContentBlockStop st =
     (st\<lparr>currentContent := on_last (close_block parse) (currentContent st)\<rparr>, [])"
| "orchestrator_step parse sid MessageStop st =
     (case currentMessage st of
        None \<Rightarrow> (st, [])
      | Some cm \<Rightarrow>
          (st\<lparr>currentMessage := Some (cm\<lparr>cm_content := currentContent st\<rparr>)\<rparr>,
           [claude_json_event
              (JObj [(''type'', JStr ''assistant''),
                     (''message'', message_json (cm\<lparr>cm_content := currentContent st\<rparr>)),
                     (''session_id'', JStr sid)])]))"
| "orchestrator_step parse sid OtherChunk st = (st, [])"

text \<open>The whole loop over the chunks received; each chunk comes with the value
  \<^verbatim>\<open>Date.now()\<close> has while it is handled.\<close>

fun orchestrator_loop ::
  "(string \<Rightarrow> json option) \<Rightarrow> string option \<Rightarrow> (nat \<times> stream_chunk) list \<Rightarrow> orch_state
     \<Rightarrow> orch_state \<times> json list" where
  "orchestrator_loop parse sessionId [] st = (st, [])"
| "orchestrator_loop parse sessionId ((now, chunk) # rest) st =
     (case orchestrator_step parse (session_id sessionId now) chunk st of
        (st', evs) \<Rightarrow>
          (case orchestrator_loop parse sessionId rest st' of
             (st'', evs') \<Rightarrow> (st'', evs @ evs')))"

text \<open>\<^verbatim>\<open>anthropic.messages.create({..., stream: true})\<close>: it rejects, or it gives a stream
  that delivers chunks and then ends or throws.\<close>

datatype llm_outcome =
    CreateFails thrown
  | Stream "(nat \<times> stream_chunk) list" "thrown option"

definition default_worker_agents :: "agent list" where
  "default_worker_agents =
     map (\<lambda>(i, n, d). \<lparr>agent_id = i, agent_name = n, agent_description = d, apiEndpoint = None,
                        workingDirectory = None, isOrchestrator = False\<rparr>)
       [(''readymojo-admin'', ''ReadyMojo Admin'', ''Admin dashboard and management interface''),
        (''readymojo-api'', ''ReadyMojo API'', ''Backend API and server logic''),
        (''readymojo-web'', ''ReadyMojo Web'', ''Frontend web application''),
        (''peakmojo-kit'', ''PeakMojo Kit'', ''UI component library and design system'')]"

fun join_nl :: "string list \<Rightarrow> string" where
  "join_nl [] = []"
| "join_nl [l] = l"
| "join_nl (l # ls) = l @ CHR 0x0A # join_nl ls"

definition agentDescriptions :: "agent list \<Rightarrow> string" where
  "agentDescriptions workerAgents =
     join_nl (map (\<lambda>a. ''- '' @ agent_id a @ '': '' @ agent_description a) workerAgents)"

definition init_event :: "string \<Rightarrow> json" where
  "init_event sid =
     claude_json_event
       (JObj [(''type'', JStr ''system''), (''subtype'', JStr ''init''), (''session_id'', JStr sid),
              (''model'', JStr ''claude-sonnet-4-20250514''),
              (''tools'', JArr [JStr ''orchestrate_execution''])])"

text \<open>
  The generator. \<open>create\<close> stands for the SDK call; of the request it receives the API
  key, the agent ids allowed in the tool schema, the agent list of the system prompt and
  the user message. The abort controller stored in the registry is not handed to the
  call, and the \<^verbatim>\<open>catch\<close> block yields an \<^verbatim>\<open>error\<close> event for whatever was thrown.
  \<open>now\<close> is \<^verbatim>\<open>Date.now()\<close> when the init event is built.
\<close>

definition executeOrchestratorWorkflow ::
  "(string \<Rightarrow> json option) \<Rightarrow> (string \<Rightarrow> string list \<Rightarrow> string \<Rightarrow> string \<Rightarrow> llm_outcome) \<Rightarrow> env \<Rightarrow> nat
     \<Rightarrow> string \<Rightarrow> string \<Rightarrow> registry \<Rightarrow> string option \<Rightarrow> agent list option \<Rightarrow> run" where
  "executeOrchestratorWorkflow parse create process_env now message requestId
       requestAbortControllers sessionId availableAgents =
     \<lparr>events =
        (let workerAgents =
               (case availableAgents of
                  None \<Rightarrow> default_worker_agents
                | Some agents \<Rightarrow> filter (\<lambda>a. \<not> isOrchestrator a) agents)
         in case or_else (process_env ''ANTHROPIC_API_KEY'') (process_env ''CLAUDE_API_KEY'') of
              Some (c # cs) \<Rightarrow>
                (case create (c # cs) (map agent_id workerAgents)
                        (agentDescriptions workerAgents) message of
                   CreateFails e \<Rightarrow> [error_event (error_text e)]
                 | Stream chunks failure \<Rightarrow>
                     init_event (session_id sessionId now)
                       # snd (orchestrator_loop parse sessionId chunks
                                \<lparr>currentMessage = None, currentContent = []\<rparr>)
                       @ [case failure of
                            None \<Rightarrow> done_event
                          | Some e \<Rightarrow> error_event (error_text e)])
            | _ \<Rightarrow>
                [error_event
                   ''ANTHROPIC_API_KEY environment variable is required for orchestrator mode'']),
      controllers =
        cleanup (requestAbortControllers(requestId \<mapsto> \<lparr>signal_aborted = False\<rparr>)) requestId\<rparr>"

section \<open>The local executor: \<^verbatim>\<open>executeClaudeCommand\<close>\<close>

text \<open>
  What \<^verbatim>\<open>claude-auth-utils.ts\<close> sees of the file system and the clock: whether writing the
  credentials file rejects, the \<^verbatim>\<open>claudeAiOauth\<close> entry of the file (\<open>None\<close> when the file
  cannot be read or parsed or has no such entry), \<^verbatim>\<open>Date.now()\<close>, and the three paths as
  \<^verbatim>\<open>node:path\<close> and \<^verbatim>\<open>fs.existsSync\<close> resolve them.
\<close>

record stored_oauth =
  stored_accessToken :: "string option"
  stored_expiresAt :: "int option"

record auth_world =
  write_rejects :: bool
  credentials_file :: "stored_oauth option"
  clock_now :: int
  credentialsPath :: string
  preloadScriptPath :: string
  configDir :: string

text \<open>The time values for which \<^verbatim>\<open>new Date(t).toISOString()\<close> does not throw a
  \<^verbatim>\<open>RangeError\<close>.\<close>

definition valid_date :: "int \<Rightarrow> bool" where
  "valid_date t = (- 8640000000000000 \<le> t \<and> t \<le> 8640000000000000)"

text \<open>\<^verbatim>\<open>writeClaudeCredentialsFile\<close>; \<open>None\<close> when it rejects: \<^verbatim>\<open>fs.promises.writeFile\<close>
  fails, or the expiry logged after the write is not a valid date.\<close>

definition writeClaudeCredentialsFile :: "auth_world \<Rightarrow> claude_auth option \<Rightarrow> auth_world option" where
  "writeClaudeCredentialsFile w claudeAuth =
     (case claudeAuth of
        None \<Rightarrow> Some w
      | Some a \<Rightarrow>
          (if write_rejects w then None
           else if valid_date (expiresAt a) then
             Some (w\<lparr>credentials_file :=
                       Some \<lparr>stored_accessToken = Some (accessToken a),
                             stored_expiresAt = Some (expiresAt a)\<rparr>\<rparr>)
           else None))"

text \<open>\<^verbatim>\<open>preloadScriptPath.replace(/\\/g, "\\\\").replace(/"/g, '\\"')\<close>\<close>

definition escape_path :: "string \<Rightarrow> string" where
  "escape_path path =
     concat (map (\<lambda>c. if c = CHR 0x5C then [CHR 0x5C, CHR 0x5C]
                        else if c = CHR 0x22 then [CHR 0x5C, CHR 0x22] else [c]) path)"

text \<open>\<^verbatim>\<open>prepareClaudeAuthEnvironment\<close>: the environment entries in insertion order, and the
  executable arguments. Credentials count as valid when token and expiry are truthy and
  the expiry lies more than five minutes ahead; an expiry that is no valid date makes the
  logging inside the \<^verbatim>\<open>try\<close> throw, and the \<^verbatim>\<open>catch\<close> resets the flag.\<close>

definition prepareClaudeAuthEnvironment :: "auth_world \<Rightarrow> (string \<times> string) list \<times> string list" where
  "prepareClaudeAuthEnvironment w =
     (if (case credentials_file w of
            None \<Rightarrow> False
          | Some oauth \<Rightarrow>
              (case (stored_accessToken oauth, stored_expiresAt oauth) of
                 (Some (c # cs), Some expires) \<Rightarrow>
                   expires \<noteq> 0 \<and> clock_now w + 5 * 60 * 1000 < expires \<and> valid_date expires
               | _ \<Rightarrow> False))
      then
        ([(''CLAUDE_CREDENTIALS_PATH'', credentialsPath w),
          (''DEBUG_PRELOAD_SCRIPT'', ''1''),
          (''NODE_OPTIONS'', ''--require '' @ [CHR 0x22] @ escape_path (preloadScriptPath w) @ [CHR 0x22]),
          (''CLAUDE_CONFIG_DIR'', configDir w)], [])
      else ([], []))"

text \<open>The inner \<^verbatim>\<open>try\<close> of \<^verbatim>\<open>executeClaudeCommand\<close> around the authentication set-up: when
  either helper throws, \<^verbatim>\<open>authEnv\<close> and \<^verbatim>\<open>executableArgs\<close> stay empty.\<close>

definition auth_setup :: "auth_world \<Rightarrow> claude_auth option \<Rightarrow> (string \<times> string) list \<times> string list" where
  "auth_setup w claudeAuth =
     (case writeClaudeCredentialsFile w claudeAuth of
        None \<Rightarrow> ([], [])
      | Some w' \<Rightarrow>
          (case prepareClaudeAuthEnvironment w' of
             (authEnv, executableArgs) \<Rightarrow> (obj_set authEnv ''DEBUG_PRELOAD_SCRIPT'' ''0'', executableArgs)))"

text \<open>
  The credential variables: with an OAuth access token the token is installed and both
  API key variables are deleted; without one, a key found in either variable is copied to
  both. The result is \<^verbatim>\<open>originalEnv\<close> (\<open>None\<close> is \<^verbatim>\<open>undefined\<close>) and the new
  \<^verbatim>\<open>process.env\<close>.
\<close>

definition install_credentials ::
  "claude_auth option \<Rightarrow> env \<Rightarrow> (string \<times> string option) list \<times> env" where
  "install_credentials claudeAuth process_env =
     (case map_option accessToken claudeAuth of
        Some (c # cs) \<Rightarrow>
          ([(''CLAUDE_CODE_OAUTH_TOKEN'', process_env ''CLAUDE_CODE_OAUTH_TOKEN''),
            (''ANTHROPIC_API_KEY'', process_env ''ANTHROPIC_API_KEY''),
            (''CLAUDE_API_KEY'', process_env ''CLAUDE_API_KEY'')],
           process_env(''CLAUDE_CODE_OAUTH_TOKEN'' \<mapsto> c # cs,
                       ''ANTHROPIC_API_KEY'' := None, ''CLAUDE_API_KEY'' := None))
      | _ \<Rightarrow>
          (case or_else (process_env ''ANTHROPIC_API_KEY'') (process_env ''CLAUDE_API_KEY'') of
             Some (c # cs) \<Rightarrow>
               ([(''ANTHROPIC_API_KEY'', process_env ''ANTHROPIC_API_KEY''),
                 (''CLAUDE_API_KEY'', process_env ''CLAUDE_API_KEY'')],
                process_env(''ANTHROPIC_API_KEY'' \<mapsto> c # cs, ''CLAUDE_API_KEY'' \<mapsto> c # cs))
           | _ \<Rightarrow> ([], process_env)))"

text \<open>\<^verbatim>\<open>for (const [key, value] of Object.entries(authEnv))\<close>: the value the variable has
  now is recorded in \<^verbatim>\<open>originalEnv\<close>, then the variable is set.\<close>

fun install_auth_env ::
  "(string \<times> string) list \<Rightarrow> (string \<times> string option) list \<times> env
     \<Rightarrow> (string \<times> string option) list \<times> env" where
  "install_auth_env [] (originalEnv, process_env) = (originalEnv, process_env)"
| "install_auth_env ((key, v) # rest) (originalEnv, process_env) =
     install_auth_env rest (obj_set originalEnv key (process_env key), process_env(key \<mapsto> v))"

text \<open>The inner \<^verbatim>\<open>finally\<close>: every entry of \<^verbatim>\<open>originalEnv\<close> is written back, an
  \<^verbatim>\<open>undefined\<close> one by deleting the variable.\<close>

fun restore_env :: "(string \<times> string option) list \<Rightarrow> env \<Rightarrow> env" where
  "restore_env [] process_env = process_env"
| "restore_env ((key, originalValue) # rest) process_env =
     restore_env rest (process_env(key := originalValue))"

text \<open>\<^verbatim>\<open>String.prototype.includes\<close>\<close>

fun starts_with :: "string \<Rightarrow> string \<Rightarrow> bool" where
  "starts_with s [] = True"
| "starts_with [] (p # ps) = False"
| "starts_with (c # cs) (p # ps) = (c = p \<and> starts_with cs ps)"

fun js_includes :: "string \<Rightarrow> string \<Rightarrow> bool" where
  "js_includes [] sub = (sub = [])"
| "js_includes (c # cs) sub = (starts_with (c # cs) sub \<or> js_includes cs sub)"

text \<open>The event the outer \<^verbatim>\<open>catch\<close> yields: \<^verbatim>\<open>aborted\<close> for an instance of the SDK's
  \<^verbatim>\<open>AbortError\<close>, otherwise \<^verbatim>\<open>error\<close>, with the message rewritten when it looks like an
  authentication failure.\<close>

definition local_failure_event :: "thrown \<Rightarrow> json" where
  "local_failure_event error =
     (case error of
        JsError True n m \<Rightarrow> aborted_event
      | _ \<Rightarrow>
          (if js_includes (error_text error) ''exit with code 1''
              \<or> js_includes (error_text error) ''authentication''
           then error_event
                  (''Claude Code authentication failed. Please ensure valid OAuth credentials are provided. Original error: ''
                     @ error_text error)
           else error_event (error_text error)))"

text \<open>What iterating the SDK's \<^verbatim>\<open>query(...)\<close> gives: its messages, then the end of the
  iteration or a throw, and \<^verbatim>\<open>process.env\<close> as the call leaves it. The call runs in the
  same process and may write to the environment (the SDK sets
  \<^verbatim>\<open>CLAUDE_CODE_ENTRYPOINT\<close> when it is unset).\<close>

datatype sdk_outcome = Sdk "json list" "thrown option" env

record local_run = run +
  env_during_call :: env
  env_after_call :: env
  final_env :: env

text \<open>
  The generator. \<open>query\<close> stands for the SDK call; it receives the process environment as
  it is during the call (the child process inherits it), the prompt, the executable
  arguments, the session to resume, the allowed tools and the working directory. The
  probes of the file system and the \<^verbatim>\<open>--version\<close> test run are wrapped in their own
  \<^verbatim>\<open>try\<close> blocks and only log. The inner \<^verbatim>\<open>finally\<close> writes the entries of
  \<^verbatim>\<open>originalEnv\<close> back into the environment as the call left it, before the outer
  \<^verbatim>\<open>catch\<close> yields its event. Besides the events and the registry, the result records the
  environment the SDK call started in, the environment when the call was over, and the
  environment left behind.
\<close>

definition executeClaudeCommand ::
  "(env \<Rightarrow> string \<Rightarrow> string list \<Rightarrow> string option \<Rightarrow> string list option \<Rightarrow> string option \<Rightarrow> sdk_outcome)
     \<Rightarrow> auth_world \<Rightarrow> env \<Rightarrow> string \<Rightarrow> string \<Rightarrow> registry \<Rightarrow> string option
     \<Rightarrow> string list option \<Rightarrow> string option \<Rightarrow> claude_auth option \<Rightarrow> local_run" where
  "executeClaudeCommand query w process_env message requestId requestAbortControllers sessionId
       allowedTools workingDir claudeAuth =
     (case auth_setup w claudeAuth of
        (authEnv, executableArgs) \<Rightarrow>
          (case install_auth_env authEnv (install_credentials claudeAuth process_env) of
             (originalEnv, call_env) \<Rightarrow>
               (case query call_env message executableArgs
                       (case sessionId of Some (c # cs) \<Rightarrow> sessionId | _ \<Rightarrow> None)
                       allowedTools
                       (case workingDir of Some (c # cs) \<Rightarrow> workingDir | _ \<Rightarrow> None) of
                  Sdk sdkMessages failure env_left \<Rightarrow>
                    \<lparr>events =
                       map claude_json_event sdkMessages
                         @ [case failure of
                              None \<Rightarrow> done_event
                            | Some error \<Rightarrow> local_failure_event error],
                     controllers =
                       cleanup (requestAbortControllers(requestId \<mapsto> \<lparr>signal_aborted = False\<rparr>))
                         requestId,
                     env_during_call = call_env,
                     env_after_call = env_left,
                     final_env = restore_env originalEnv env_left\<rparr>)))"

text \<open>The three credential variables and the four variables of the authentication
  environment: the only variables \<^verbatim>\<open>executeClaudeCommand\<close> assigns or deletes.\<close>

definition executor_variables :: "string list" where
  "executor_variables =
     [''CLAUDE_CODE_OAUTH_TOKEN'', ''ANTHROPIC_API_KEY'', ''CLAUDE_API_KEY'',
      ''CLAUDE_CREDENTIALS_PATH'', ''DEBUG_PRELOAD_SCRIPT'', ''NODE_OPTIONS'', ''CLAUDE_CONFIG_DIR'']"

text \<open>An SDK call for the examples: it writes to the environment as the SDK does (it sets
  \<^verbatim>\<open>CLAUDE_CODE_ENTRYPOINT\<close> to \<^verbatim>\<open>sdk-ts\<close> when the variable is unset), delivers one
  message and ends.\<close>

definition entrypoint_query ::
  "env \<Rightarrow> string \<Rightarrow> string list \<Rightarrow> string option \<Rightarrow> string list option \<Rightarrow> string option \<Rightarrow> sdk_outcome" where
  "entrypoint_query process_env prompt executableArgs resume allowedTools cwd =
     Sdk [JObj [(''type'', JStr ''result'')]] None
       (case process_env ''CLAUDE_CODE_ENTRYPOINT'' of
          Some (c # cs) \<Rightarrow> process_env
        | _ \<Rightarrow> process_env(''CLAUDE_CODE_ENTRYPOINT'' \<mapsto> ''sdk-ts''))"

definition example_world :: auth_world where
  "example_world =
     \<lparr>write_rejects = False, credentials_file = None, clock_now = 1000,
      credentialsPath = ''/home/app/.claude-credentials.json'',
      preloadScriptPath = ''/app/dist/auth/preload-script.cjs'',
      configDir = ''/home/app/.claude-config''\<rparr>"

definition example_auth :: claude_auth where
  "example_auth =
     \<lparr>accessToken = ''token-1'', refreshToken = ''refresh-1'', expiresAt = 999999999,
      userId = ''u1'', subscriptionType = ''pro'', email_address = ''dev@example.org'',
      uuid = ''id-1''\<rparr>"

definition example_local_run :: local_run where
  "example_local_run =
     executeClaudeCommand entrypoint_query example_world [''ANTHROPIC_API_KEY'' \<mapsto> ''sk-test'']
       ''hello'' ''r1'' Map.empty None None None (Some example_auth)"

section \<open>Terminal events of a stream\<close>





definition plan_payload :: string where
  \<open>plan_payload = ''{"steps":[]}''\<close>

section \<open>Properties of the classification\<close>

lemma shouldUseOrchestrator_iff:
  "shouldUseOrchestrator p message availableAgents =
     (p = Some ''anthropic'' \<and> (\<exists>agents. availableAgents = Some agents \<and> agents \<noteq> [])
        \<and> 1 < length (mention_matches message))"
  by (auto simp: shouldUseOrchestrator_def split: option.splits)

text \<open>
  C4. A message with more than one mention, a non-empty \<^verbatim>\<open>availableAgents\<close> and an
  \<^verbatim>\<open>anthropic\<close> orchestrator provider is routed to \<^verbatim>\<open>executeOrchestratorWorkflow\<close>.
  Mentions are counted as the regular expression finds them, repetitions included.
\<close>

theorem multi_mention_selects_orchestrate:
  assumes "1 < length (mention_matches message)" and "agents \<noteq> []"
  shows "select_strategy (Some ''anthropic'') message (Some agents) = Orchestrate"
proof -
  have gate: "shouldUseOrchestrator (Some ''anthropic'') message (Some agents)"
    using assms by (simp add: shouldUseOrchestrator_iff)
  obtain m1 m2 ms where "mention_matches message = m1 # m2 # ms"
    using assms(1) by (cases "mention_matches message" rule: list.exhaust)
      (auto simp: Suc_length_conv neq_Nil_conv)
  then show ?thesis using gate by (simp add: select_strategy_def)
qed

theorem multi_mention_selects_orchestrate_witness:
  "1 < length (mention_matches ''@a @a do Y'')
   \<and> select_strategy (Some ''anthropic'') ''@a @a do Y''
        (Some [\<lparr>agent_id = ''a'', agent_name = ''A'', agent_description = ''worker'',
                apiEndpoint = Some ''http://peer'', workingDirectory = Some ''/srv'',
                isOrchestrator = False\<rparr>]) = Orchestrate"
proof -
  have n: "1 < length (mention_matches ''@a @a do Y'')" by code_simp
  show ?thesis
    using n multi_mention_selects_orchestrate [OF n, of
        "[\<lparr>agent_id = ''a'', agent_name = ''A'', agent_description = ''worker'',
           apiEndpoint = Some ''http://peer'', workingDirectory = Some ''/srv'',
           isOrchestrator = False\<rparr>]"]
    by simp
qed

text \<open>
  C1 (as stated, refuted). The request of the specification's scenario: one mention of
  the worker \<^verbatim>\<open>db-agent\<close>, which is in \<^verbatim>\<open>availableAgents\<close> with an endpoint, and an
  \<^verbatim>\<open>anthropic\<close> orchestrator. \<^verbatim>\<open>shouldUseOrchestrator\<close> is false for a single mention, so
  the handler takes the local branch.
\<close>

theorem single_mention_counterexample:
  "select_strategy (Some ''anthropic'') ''@db-agent do X''
     (Some [\<lparr>agent_id = ''db-agent'', agent_name = ''DB'', agent_description = ''database'',
             apiEndpoint = Some ''http://peer'', workingDirectory = Some ''/srv'',
             isOrchestrator = False\<rparr>])
   \<noteq> RemoteSingle \<lparr>agent_id = ''db-agent'', agent_name = ''DB'', agent_description = ''database'',
             apiEndpoint = Some ''http://peer'', workingDirectory = Some ''/srv'',
             isOrchestrator = False\<rparr>"
proof -
  have "mention_matches ''@db-agent do X'' = [''@db-agent'']" by code_simp
  then show ?thesis by (simp add: select_strategy_def shouldUseOrchestrator_def)
qed

text \<open>
  C1 (amended). A message with exactly one mention that names a non-orchestrator agent of
  \<^verbatim>\<open>availableAgents\<close> carrying an endpoint is routed, with an \<^verbatim>\<open>anthropic\<close> orchestrator
  configured, to the local executor \<^verbatim>\<open>executeClaudeCommand\<close>.
\<close>

theorem single_mention_selects_local:
  assumes "mention_matches message = [m]"
    and "find (\<lambda>a. agent_id a = drop 1 m) (filter (\<lambda>a. \<not> isOrchestrator a) agents) = Some a"
    and "apiEndpoint a = Some endpoint"
  shows "select_strategy (Some ''anthropic'') message (Some agents) = Local"
  using assms(1) by (simp add: select_strategy_def shouldUseOrchestrator_def)

theorem single_mention_selects_local_witness:
  "mention_matches ''@db-agent do X'' = [''@db-agent'']
   \<and> find (\<lambda>a. agent_id a = drop 1 ''@db-agent'')
        (filter (\<lambda>a. \<not> isOrchestrator a)
           [\<lparr>agent_id = ''db-agent'', agent_name = ''DB'', agent_description = ''database'',
             apiEndpoint = Some ''http://peer'', workingDirectory = Some ''/srv'',
             isOrchestrator = False\<rparr>])
      = Some \<lparr>agent_id = ''db-agent'', agent_name = ''DB'', agent_description = ''database'',
             apiEndpoint = Some ''http://peer'', workingDirectory = Some ''/srv'',
             isOrchestrator = False\<rparr>
   \<and> select_strategy (Some ''anthropic'') ''@db-agent do X''
        (Some [\<lparr>agent_id = ''db-agent'', agent_name = ''DB'', agent_description = ''database'',
             apiEndpoint = Some ''http://peer'', workingDirectory = Some ''/srv'',
             isOrchestrator = False\<rparr>]) = Local"
proof -
  have m: "mention_matches ''@db-agent do X'' = [''@db-agent'']" by code_simp
  have f: "find (\<lambda>a. agent_id a = drop 1 ''@db-agent'')
        (filter (\<lambda>a. \<not> isOrchestrator a)
           [\<lparr>agent_id = ''db-agent'', agent_name = ''DB'', agent_description = ''database'',
             apiEndpoint = Some ''http://peer'', workingDirectory = Some ''/srv'',
             isOrchestrator = False\<rparr>])
      = Some \<lparr>agent_id = ''db-agent'', agent_name = ''DB'', agent_description = ''database'',
             apiEndpoint = Some ''http://peer'', workingDirectory = Some ''/srv'',
             isOrchestrator = False\<rparr>" by simp
  show ?thesis
    using m f single_mention_selects_local [OF m f, of "''http://peer''"] by simp
qed

section \<open>Properties of the remote delegate\<close>

lemma split_nl_nonempty: "split_nl s \<noteq> []"
  by (induction s) (auto split: list.splits)

lemma split_nl_append: "split_nl (xs @ CHR 0x0A # ys) = split_nl xs @ split_nl ys"
  by (induction xs) (auto split: list.splits simp: split_nl_nonempty)

lemma split_nl_single: "CHR 0x0A \<notin> set a \<Longrightarrow> split_nl a = [a]"
  by (induction a) auto

lemma process_lines_append:
  "process_lines parse (xs @ ys) =
     (case process_lines parse xs of
        (evs, True) \<Rightarrow> (evs, True)
      | (evs, False) \<Rightarrow> (case process_lines parse ys of (evs', r) \<Rightarrow> (evs @ evs', r)))"
  by (induction xs) (auto split: option.splits prod.splits bool.splits)

lemma process_lines_skip:
  "parse bad = None \<Longrightarrow> process_lines parse (xs @ bad # ys) = process_lines parse (xs @ ys)"
  by (simp add: process_lines_append split: prod.splits bool.splits)

lemma read_loop_cong:
  "read_loop parse r1 = read_loop parse r2 \<Longrightarrow> read_loop parse (earlier @ r1) = read_loop parse (earlier @ r2)"
proof (induction earlier)
  case Nil then show ?case by simp
next
  case (Cons c cs)
  then show ?case by (cases c) (auto split: prod.splits bool.splits)
qed

lemma read_loop_reads_pos: "read_loop parse rs = (evs, n, ex) \<Longrightarrow> 0 < n"
  by (cases "(parse, rs)" rule: read_loop.cases) (auto split: prod.splits bool.splits)

lemma read_loop_after_done:
  "read_loop parse earlier = (evs0, n0, ReaderDone) \<Longrightarrow>
   read_loop parse (earlier @ later) =
     (case read_loop parse later of (evs', n, ex) \<Rightarrow> (evs0 @ evs', n0 - 1 + n, ex))"
proof (induction earlier arbitrary: evs0 n0)
  case Nil then show ?case by (auto split: prod.splits)
next
  case (Cons c cs)
  then show ?case
    by (cases c) (auto split: prod.splits bool.splits dest: read_loop_reads_pos)
qed


lemma chunk_lines_append:
  "chunk_lines (xs @ CHR 0x0A # ys) = chunk_lines xs @ chunk_lines ys"
  by (simp add: chunk_lines_def split_nl_append)

lemma chunk_lines_single:
  "CHR 0x0A \<notin> set a \<Longrightarrow> chunk_lines a = (if js_trim a \<noteq> [] then [a] else [])"
  by (simp add: chunk_lines_def split_nl_single)

lemma process_chunk_without_line:
  assumes "parse bad = None" and "CHR 0x0A \<notin> set bad"
  shows "process_lines parse (chunk_lines (pre @ CHR 0x0A # bad @ CHR 0x0A # post))
         = process_lines parse (chunk_lines (pre @ CHR 0x0A # post))"
  using assms by (simp add: chunk_lines_append chunk_lines_single process_lines_skip)

lemmas example_defs =
  example_parse_def peer_aborted_line_def peer_done_line_def peer_text_line_def
  peer_text_event_def done_event_def aborted_event_def chunk_lines_def js_trim_def
  is_js_space_def




text \<open>
  C8. In the read loop of the delegate, a line that \<^verbatim>\<open>JSON.parse\<close> rejects is skipped: the
  whole run (events, registry, reads) is the one of the same body without that line, so
  it neither ends the stream nor adds an event. A parsed line of type \<^verbatim>\<open>done\<close> or
  \<^verbatim>\<open>error\<close> is yielded and ends the run: the events are those before it followed by it,
  whatever follows in the chunk (\<open>post\<close>) or in the body (\<open>after\<close>), and no read is made
  beyond the chunk that holds it.
\<close>

theorem malformed_skipped_terminal_ends:
  assumes ok: "200 \<le> status response \<and> status response \<le> 299"
    and bad: "parse bad = None" "CHR 0x0A \<notin> set bad"
    and earlier: "read_loop parse earlier = (evs0, n0, ReaderDone)"
    and pre: "process_lines parse (chunk_lines pre) = (evs1, False)"
    and line: "parse line = Some v"
      "type_of v = Some (JStr ''done'') \<or> type_of v = Some (JStr ''error'')"
      "js_trim line \<noteq> []" "CHR 0x0A \<notin> set line"
  shows
    "executeAgentHttpRequest parse
        (\<lambda>url b. FetchResponse (response\<lparr>body := Some
            (before @ Chunk (pre @ CHR 0x0A # bad @ CHR 0x0A # post) # after)\<rparr>))
        agent message requestId requestAbortControllers sessionId claudeAuth
     = executeAgentHttpRequest parse
        (\<lambda>url b. FetchResponse (response\<lparr>body := Some
            (before @ Chunk (pre @ CHR 0x0A # post) # after)\<rparr>))
        agent message requestId requestAbortControllers sessionId claudeAuth
     \<and> events (executeAgentHttpRequest parse
        (\<lambda>url b. FetchResponse (response\<lparr>body := Some
            (earlier @ Chunk (pre @ CHR 0x0A # line @ CHR 0x0A # post) # after)\<rparr>))
        agent message requestId requestAbortControllers sessionId claudeAuth)
       = evs0 @ evs1 @ [v]
     \<and> reads (executeAgentHttpRequest parse
        (\<lambda>url b. FetchResponse (response\<lparr>body := Some
            (earlier @ Chunk (pre @ CHR 0x0A # line @ CHR 0x0A # post) # after)\<rparr>))
        agent message requestId requestAbortControllers sessionId claudeAuth)
       = n0"
proof -
  have same: "read_loop parse (before @ Chunk (pre @ CHR 0x0A # bad @ CHR 0x0A # post) # after)
              = read_loop parse (before @ Chunk (pre @ CHR 0x0A # post) # after)"
    by (rule read_loop_cong) (simp add: process_chunk_without_line bad)
  have "process_lines parse (chunk_lines (pre @ CHR 0x0A # line @ CHR 0x0A # post)) = (evs1 @ [v], True)"
    using pre line
    by (auto simp: chunk_lines_append chunk_lines_single process_lines_append)
  then have stop: "read_loop parse (Chunk (pre @ CHR 0x0A # line @ CHR 0x0A # post) # after)
                   = (evs1 @ [v], 1, Returned)"
    by simp
  have pos: "0 < n0" using earlier by (rule read_loop_reads_pos)
  have ended: "read_loop parse (earlier @ Chunk (pre @ CHR 0x0A # line @ CHR 0x0A # post) # after)
               = (evs0 @ evs1 @ [v], n0, Returned)"
    using read_loop_after_done [OF earlier, of "Chunk (pre @ CHR 0x0A # line @ CHR 0x0A # post) # after"]
      stop pos by simp
  show ?thesis
    using ok same ended by (simp add: executeAgentHttpRequest_def http_try_def)
qed

theorem malformed_skipped_terminal_ends_witness:
  "executeAgentHttpRequest example_parse
      (\<lambda>url b. FetchResponse (ok_response
          [Chunk (peer_text_line @ CHR 0x0A # ''not json'' @ CHR 0x0A # peer_text_line),
           Chunk peer_text_line]))
      db_agent ''@db-agent do X'' ''r1'' Map.empty None None
   = executeAgentHttpRequest example_parse
      (\<lambda>url b. FetchResponse (ok_response
          [Chunk (peer_text_line @ CHR 0x0A # peer_text_line), Chunk peer_text_line]))
      db_agent ''@db-agent do X'' ''r1'' Map.empty None None
   \<and> events (executeAgentHttpRequest example_parse
      (\<lambda>url b. FetchResponse (ok_response
          [Chunk (peer_text_line @ [CHR 0x0A]),
           Chunk (peer_text_line @ CHR 0x0A # peer_done_line @ CHR 0x0A # peer_text_line),
           Chunk peer_text_line]))
      db_agent ''@db-agent do X'' ''r1'' Map.empty None None)
     = [peer_text_event, peer_text_event, done_event]
   \<and> reads (executeAgentHttpRequest example_parse
      (\<lambda>url b. FetchResponse (ok_response
          [Chunk (peer_text_line @ [CHR 0x0A]),
           Chunk (peer_text_line @ CHR 0x0A # peer_done_line @ CHR 0x0A # peer_text_line),
           Chunk peer_text_line]))
      db_agent ''@db-agent do X'' ''r1'' Map.empty None None)
     = 2"
proof -
  have ok: "200 \<le> status (ok_response []) \<and> status (ok_response []) \<le> 299"
    by (simp add: ok_response_def)
  have bad: "example_parse ''not json'' = None" "CHR 0x0A \<notin> set ''not json''"
    by (simp_all add: example_defs)
  have earlier: "read_loop example_parse [Chunk (peer_text_line @ [CHR 0x0A])]
                 = ([peer_text_event], 2, ReaderDone)"
    by (simp add: example_defs)
  have pre: "process_lines example_parse (chunk_lines peer_text_line) = ([peer_text_event], False)"
    by (simp add: example_defs)
  have line: "example_parse peer_done_line = Some done_event"
    "type_of done_event = Some (JStr ''done'') \<or> type_of done_event = Some (JStr ''error'')"
    "js_trim peer_done_line \<noteq> []" "CHR 0x0A \<notin> set peer_done_line"
    by (simp_all add: example_defs)
  show ?thesis
    using malformed_skipped_terminal_ends [OF ok bad earlier pre line,
        where before = "[]" and post = peer_text_line and after = "[Chunk peer_text_line]"
          and agent = db_agent and message = "''@db-agent do X''" and requestId = "''r1''"
          and requestAbortControllers = Map.empty and sessionId = None and claudeAuth = None]
    by (simp add: ok_response_def)
qed

text \<open>
  C10. Chunks are split into lines one by one, nothing is carried over. When the line of
  a peer event is cut between two adjacent chunks and neither fragment parses on its
  own, the run is the one of a body in which the line was never sent: the event is not
  yielded.
\<close>

theorem split_line_is_lost:
  assumes whole: "parse (a @ b) = Some v"
    and parts: "parse a = None" "parse b = None"
    and nl: "CHR 0x0A \<notin> set a" "CHR 0x0A \<notin> set b"
  shows
    "executeAgentHttpRequest parse
        (\<lambda>url body. FetchResponse (response\<lparr>body := Some
            (before @ Chunk (pre @ CHR 0x0A # a) # Chunk (b @ CHR 0x0A # post) # after)\<rparr>))
        agent message requestId requestAbortControllers sessionId claudeAuth
     = executeAgentHttpRequest parse
        (\<lambda>url body. FetchResponse (response\<lparr>body := Some
            (before @ Chunk pre # Chunk post # after)\<rparr>))
        agent message requestId requestAbortControllers sessionId claudeAuth"
proof -
  have first: "process_lines parse (chunk_lines (pre @ CHR 0x0A # a)) = process_lines parse (chunk_lines pre)"
    using parts(1) nl(1) process_lines_skip [of parse a "chunk_lines pre" "[]"]
    by (simp add: chunk_lines_append chunk_lines_single)
  have second: "process_lines parse (chunk_lines (b @ CHR 0x0A # post)) = process_lines parse (chunk_lines post)"
    using parts(2) nl(2) by (simp add: chunk_lines_append chunk_lines_single)
  have "read_loop parse (before @ Chunk (pre @ CHR 0x0A # a) # Chunk (b @ CHR 0x0A # post) # after)
        = read_loop parse (before @ Chunk pre # Chunk post # after)"
    by (rule read_loop_cong) (simp add: first second)
  then show ?thesis
    by (simp add: executeAgentHttpRequest_def http_try_def http_error_message_def)
qed


theorem split_line_is_lost_witness:
  "example_parse (take 9 peer_text_line @ drop 9 peer_text_line) = Some peer_text_event
   \<and> events (executeAgentHttpRequest example_parse
      (\<lambda>url body. FetchResponse (ok_response
          [Chunk (peer_text_line @ CHR 0x0A # take 9 peer_text_line),
           Chunk (drop 9 peer_text_line @ CHR 0x0A # peer_aborted_line)]))
      db_agent ''@db-agent do X'' ''r1'' Map.empty None None)
     = [peer_text_event, aborted_event, done_event]"
proof -
  have whole: "example_parse (take 9 peer_text_line @ drop 9 peer_text_line) = Some peer_text_event"
    by (simp add: example_defs)
  have parts: "example_parse (take 9 peer_text_line) = None"
    "example_parse (drop 9 peer_text_line) = None"
    by (simp_all add: example_defs)
  have nl: "CHR 0x0A \<notin> set (take 9 peer_text_line)" "CHR 0x0A \<notin> set (drop 9 peer_text_line)"
    by (simp_all add: example_defs)
  have "events (executeAgentHttpRequest example_parse
      (\<lambda>url body. FetchResponse (ok_response [Chunk peer_text_line, Chunk peer_aborted_line]))
      db_agent ''@db-agent do X'' ''r1'' Map.empty None None)
     = [peer_text_event, aborted_event, done_event]"
    by (simp add: executeAgentHttpRequest_def http_try_def ok_response_def example_defs)
  then show ?thesis
    using whole split_line_is_lost [OF whole parts nl,
        where response = "ok_response []" and before = "[]" and pre = peer_text_line
          and post = peer_aborted_line and after = "[]"
          and agent = db_agent and message = "''@db-agent do X''" and requestId = "''r1''"
          and requestAbortControllers = Map.empty and sessionId = None and claudeAuth = None]
    by (simp add: ok_response_def)
qed

section \<open>Properties of the orchestrator planner\<close>

lemma on_last_snoc: "on_last f (xs @ [b]) = xs @ [f b]"
  by (induction f xs rule: on_last.induct) auto

lemma json_deltas_accumulate:
  "orchestrator_loop parse sessionId
      (map (\<lambda>(t, p). (t, ContentBlockDelta (InputJsonDelta p))) parts)
      (st\<lparr>currentContent := bs @ [ToolUseBlock i n (JStr acc)]\<rparr>)
   = (st\<lparr>currentContent := bs @ [ToolUseBlock i n (JStr (acc @ concat (map snd parts)))]\<rparr>, [])"
  by (induction parts arbitrary: acc) (auto simp: on_last_snoc)

lemma orchestrator_loop_append:
  "orchestrator_loop parse sessionId (xs @ ys) st =
     (case orchestrator_loop parse sessionId xs st of
        (st', evs) \<Rightarrow>
          (case orchestrator_loop parse sessionId ys st' of
             (st'', evs') \<Rightarrow> (st'', evs @ evs')))"
  by (induction xs arbitrary: st) (auto split: prod.splits)

text \<open>
  C7. A \<^verbatim>\<open>tool_use\<close> block is opened, its payload arrives as any sequence of
  \<^verbatim>\<open>input_json_delta\<close> chunks (one chunk, single characters, empty chunks), and the block
  is closed. Whatever the state before, the loop appends one \<^verbatim>\<open>tool_use\<close> block to
  \<^verbatim>\<open>currentContent\<close> and yields no event. Its input is the value \<^verbatim>\<open>JSON.parse\<close> gives for
  the concatenation of the chunks (the payload has a non-blank trim); when \<^verbatim>\<open>JSON.parse\<close>
  throws, the input stays the concatenated string. So the partition of the payload does
  not matter, and a parse failure produces no \<^verbatim>\<open>error\<close> event.
\<close>

theorem tool_input_accumulates_and_parses:
  "orchestrator_loop parse sessionId
      ((t0, ContentBlockStart (ToolUseBlock i n inp))
        # map (\<lambda>(t, p). (t, ContentBlockDelta (InputJsonDelta p))) parts
        @ [(t1, ContentBlockStop)]) st
   = (st\<lparr>currentContent := currentContent st @
          [ToolUseBlock i n
             (case parse (concat (map snd parts)) of
                Some plan \<Rightarrow>
                  if js_trim (concat (map snd parts)) \<noteq> [] then plan
                  else JStr (concat (map snd parts))
              | None \<Rightarrow> JStr (concat (map snd parts)))]\<rparr>, [])"
proof -
  have start: "orchestrator_step parse (session_id sessionId t0)
                 (ContentBlockStart (ToolUseBlock i n inp)) st
               = (st\<lparr>currentContent := currentContent st @ [ToolUseBlock i n (JStr [])]\<rparr>, [])"
    by simp
  have deltas: "orchestrator_loop parse sessionId
      (map (\<lambda>(t, p). (t, ContentBlockDelta (InputJsonDelta p))) parts)
      (st\<lparr>currentContent := currentContent st @ [ToolUseBlock i n (JStr [])]\<rparr>)
    = (st\<lparr>currentContent := currentContent st
            @ [ToolUseBlock i n (JStr (concat (map snd parts)))]\<rparr>, [])"
    using json_deltas_accumulate [where parse = parse and sessionId = sessionId and parts = parts
        and st = st and bs = "currentContent st" and i = i and n = n and acc = "[]"]
    by simp
  show ?thesis
    by (simp add: orchestrator_loop_append start deltas on_last_snoc split: option.splits)
qed

theorem tool_input_accumulates_and_parses_witness:
  "snd (orchestrator_loop (map_of [(plan_payload, JObj [(''steps'', JArr [])])]) None
      ((1, ContentBlockStart (ToolUseBlock ''toolu_1'' ''orchestrate_execution'' (JObj [])))
        # map (\<lambda>(t, p). (t, ContentBlockDelta (InputJsonDelta p)))
            (map (\<lambda>c. (2, [c])) plan_payload)
        @ [(3, ContentBlockStop)]) \<lparr>currentMessage = None, currentContent = []\<rparr>) = []
   \<and> currentContent (fst (orchestrator_loop (map_of [(plan_payload, JObj [(''steps'', JArr [])])]) None
      ((1, ContentBlockStart (ToolUseBlock ''toolu_1'' ''orchestrate_execution'' (JObj [])))
        # map (\<lambda>(t, p). (t, ContentBlockDelta (InputJsonDelta p)))
            (map (\<lambda>c. (2, [c])) plan_payload)
        @ [(3, ContentBlockStop)]) \<lparr>currentMessage = None, currentContent = []\<rparr>))
     = [ToolUseBlock ''toolu_1'' ''orchestrate_execution'' (JObj [(''steps'', JArr [])])]"
proof -
  have c: "concat (map snd (map (\<lambda>c. (2::nat, [c])) plan_payload)) = plan_payload"
    by (simp add: plan_payload_def)
  have c': "concat (map (snd \<circ> (\<lambda>c. (2::nat, [c]))) plan_payload) = plan_payload"
    by (simp add: plan_payload_def)
  have t: "js_trim plan_payload \<noteq> []"
    by (simp add: plan_payload_def js_trim_def is_js_space_def)
  show ?thesis
    using tool_input_accumulates_and_parses [where parse = "map_of [(plan_payload, JObj [(''steps'', JArr [])])]"
        and sessionId = None and ?t0.0 = 1 and i = "''toolu_1''" and n = "''orchestrate_execution''"
        and inp = "JObj []" and parts = "map (\<lambda>c. (2, [c])) plan_payload" and ?t1.0 = 3
        and st = "\<lparr>currentMessage = None, currentContent = []\<rparr>"]
    by (simp add: c c' t)
qed

lemma orchestrator_step_events:
  "e \<in> set (snd (orchestrator_step parse sid chunk st)) \<Longrightarrow> type_of e = Some (JStr ''claude_json'')"
  by (cases "(parse, sid, chunk, st)" rule: orchestrator_step.cases)
     (auto simp: claude_json_event_def split: option.splits)

lemma orchestrator_loop_events:
  "e \<in> set (snd (orchestrator_loop parse sessionId chunks st)) \<Longrightarrow> type_of e = Some (JStr ''claude_json'')"
proof (induction chunks arbitrary: st)
  case Nil
  then show ?case by simp
next
  case (Cons tc chunks)
  obtain now chunk where tc: "tc = (now, chunk)" by (cases tc)
  obtain st' evs where step: "orchestrator_step parse (session_id sessionId now) chunk st = (st', evs)"
    by (cases "orchestrator_step parse (session_id sessionId now) chunk st")
  from Cons.prems tc step
  have "e \<in> set evs \<or> e \<in> set (snd (orchestrator_loop parse sessionId chunks st'))"
    by (auto split: prod.splits)
  then show ?case
  proof
    assume "e \<in> set evs"
    then show ?thesis using orchestrator_step_events [of e parse "session_id sessionId now" chunk st] step
      by simp
  next
    assume "e \<in> set (snd (orchestrator_loop parse sessionId chunks st'))"
    then show ?thesis by (rule Cons.IH)
  qed
qed

text \<open>
  C2 (the code against the claim). The planner stores an abort controller in the registry,
  but it does not hand the signal to the SDK call and never reads the controller again,
  and its \<^verbatim>\<open>catch\<close> block yields \<^verbatim>\<open>error\<close> for whatever was thrown. So whatever is done
  to the cancellation handle while the planner runs, no event of the planner is
  \<^verbatim>\<open>aborted\<close>: this holds for every registry, every environment and every outcome of
  the SDK call. The lemmas after it add that the events do not depend on the registry
  and that a stream that runs to its end closes with \<^verbatim>\<open>done\<close>.
\<close>

theorem orchestrator_never_yields_aborted:
  "aborted_event \<notin> set (events (executeOrchestratorWorkflow parse create process_env now message
       requestId requestAbortControllers sessionId availableAgents))"
proof
  assume a: "aborted_event \<in> set (events (executeOrchestratorWorkflow parse create process_env now
       message requestId requestAbortControllers sessionId availableAgents))"
  have t: "type_of aborted_event = Some (JStr ''aborted'')" by (simp add: aborted_event_def)
  from a have "type_of aborted_event \<noteq> Some (JStr ''aborted'')"
    by (auto simp: executeOrchestratorWorkflow_def Let_def init_event_def claude_json_event_def
          error_event_def done_event_def aborted_event_def
        split: option.splits list.splits llm_outcome.splits
        dest!: orchestrator_loop_events)
  with t show False by simp
qed

lemma planner_completed_stream_ends_with_done:
  assumes "or_else (process_env ''ANTHROPIC_API_KEY'') (process_env ''CLAUDE_API_KEY'') = Some (c # cs)"
    and "\<And>workerIds descriptions. create (c # cs) workerIds descriptions message = Stream chunks None"
  shows "last (events (executeOrchestratorWorkflow parse create process_env now message requestId
           requestAbortControllers sessionId availableAgents)) = done_event"
  using assms by (simp add: executeOrchestratorWorkflow_def Let_def)

lemma planner_ignores_registry:
  "events (executeOrchestratorWorkflow parse create process_env now message requestId
       registry1 sessionId availableAgents)
   = events (executeOrchestratorWorkflow parse create process_env now message requestId
       registry2 sessionId availableAgents)"
  by (simp add: executeOrchestratorWorkflow_def)

section \<open>Properties of the local executor\<close>

lemma auth_setup_shape:
  "auth_setup w claudeAuth = ([], [])
   \<or> auth_setup w claudeAuth = ([(''DEBUG_PRELOAD_SCRIPT'', ''0'')], [])
   \<or> (\<exists>p n d. auth_setup w claudeAuth =
          ([(''CLAUDE_CREDENTIALS_PATH'', p), (''DEBUG_PRELOAD_SCRIPT'', ''0''),
            (''NODE_OPTIONS'', n), (''CLAUDE_CONFIG_DIR'', d)], []))"
  by (auto simp: auth_setup_def writeClaudeCredentialsFile_def prepareClaudeAuthEnvironment_def
      split: option.splits prod.splits list.splits if_splits)

lemma install_credentials_shape:
  "(\<exists>t. install_credentials claudeAuth process_env =
          ([(''CLAUDE_CODE_OAUTH_TOKEN'', process_env ''CLAUDE_CODE_OAUTH_TOKEN''),
            (''ANTHROPIC_API_KEY'', process_env ''ANTHROPIC_API_KEY''),
            (''CLAUDE_API_KEY'', process_env ''CLAUDE_API_KEY'')],
           process_env(''CLAUDE_CODE_OAUTH_TOKEN'' \<mapsto> t,
                       ''ANTHROPIC_API_KEY'' := None, ''CLAUDE_API_KEY'' := None)))
   \<or> (\<exists>k. install_credentials claudeAuth process_env =
          ([(''ANTHROPIC_API_KEY'', process_env ''ANTHROPIC_API_KEY''),
            (''CLAUDE_API_KEY'', process_env ''CLAUDE_API_KEY'')],
           process_env(''ANTHROPIC_API_KEY'' \<mapsto> k, ''CLAUDE_API_KEY'' \<mapsto> k)))
   \<or> install_credentials claudeAuth process_env = ([], process_env)"
  by (auto simp: install_credentials_def split: option.splits list.splits)

lemma auth_setup_fst:
  "fst (auth_setup w claudeAuth) =
     (case writeClaudeCredentialsFile w claudeAuth of
        None \<Rightarrow> []
      | Some w' \<Rightarrow> obj_set (fst (prepareClaudeAuthEnvironment w')) ''DEBUG_PRELOAD_SCRIPT'' ''0'')"
  by (simp add: auth_setup_def split: option.splits prod.splits)

lemma auth_setup_snd: "snd (auth_setup w claudeAuth) = []"
  by (simp add: auth_setup_def prepareClaudeAuthEnvironment_def split: option.splits prod.splits)

lemma install_credentials_env:
  "snd (install_credentials claudeAuth process_env) =
     (case map_option accessToken claudeAuth of
        Some (c # cs) \<Rightarrow>
          process_env(''CLAUDE_CODE_OAUTH_TOKEN'' \<mapsto> c # cs,
                      ''ANTHROPIC_API_KEY'' := None, ''CLAUDE_API_KEY'' := None)
      | _ \<Rightarrow>
          (case or_else (process_env ''ANTHROPIC_API_KEY'') (process_env ''CLAUDE_API_KEY'') of
             Some (c # cs) \<Rightarrow>
               process_env(''ANTHROPIC_API_KEY'' \<mapsto> c # cs, ''CLAUDE_API_KEY'' \<mapsto> c # cs)
           | _ \<Rightarrow> process_env))"
  by (simp add: install_credentials_def split: option.splits list.splits)

lemma install_auth_env_env:
  assumes "authEnv = []
   \<or> authEnv = [(''DEBUG_PRELOAD_SCRIPT'', ''0'')]
   \<or> (\<exists>p n d. authEnv =
          [(''CLAUDE_CREDENTIALS_PATH'', p), (''DEBUG_PRELOAD_SCRIPT'', ''0''),
            (''NODE_OPTIONS'', n), (''CLAUDE_CONFIG_DIR'', d)])"
  shows "snd (install_auth_env authEnv (orig, e)) = e ++ map_of authEnv"
  using assms by (elim disjE exE) (simp_all add: fun_eq_iff map_add_def)

lemma restore_after_install:
  assumes "authEnv = []
   \<or> authEnv = [(''DEBUG_PRELOAD_SCRIPT'', ''0'')]
   \<or> (\<exists>p n d. authEnv =
          [(''CLAUDE_CREDENTIALS_PATH'', p), (''DEBUG_PRELOAD_SCRIPT'', ''0''),
            (''NODE_OPTIONS'', n), (''CLAUDE_CONFIG_DIR'', d)])"
    and "install_auth_env authEnv (install_credentials claudeAuth process_env) = (originalEnv, call_env)"
  shows "(call_env key \<noteq> process_env key \<longrightarrow> restore_env originalEnv env_left key = process_env key)
       \<and> (key \<notin> set executor_variables \<longrightarrow>
            call_env key = process_env key \<and> restore_env originalEnv env_left key = env_left key)"
  using assms install_credentials_shape [of claudeAuth process_env]
  by (elim disjE exE) (auto simp: executor_variables_def)


text \<open>
  C9 (amended). For every request, authentication set-up and SDK call:
  the SDK call starts in the process environment with the credentials installed (with an
  OAuth access token the token variable is set and both API key variables are deleted;
  without one, an API key found in either variable is copied to both) and, on top of
  that, the authentication environment with \<^verbatim>\<open>DEBUG_PRELOAD_SCRIPT\<close> set to \<^verbatim>\<open>0\<close>;
  on every exit path each variable whose value the executor changed has its prior value
  again (it is unset again if it was unset); the executor assigns and deletes only the
  seven variables of \<open>executor_variables\<close>, and every other variable is left as the SDK
  call left it.
\<close>

theorem credentials_installed_and_restored:
  "(let r = executeClaudeCommand query w process_env message requestId requestAbortControllers
              sessionId allowedTools workingDir claudeAuth
    in env_during_call r =
         (case map_option accessToken claudeAuth of
            Some (c # cs) \<Rightarrow>
              process_env(''CLAUDE_CODE_OAUTH_TOKEN'' \<mapsto> c # cs,
                          ''ANTHROPIC_API_KEY'' := None, ''CLAUDE_API_KEY'' := None)
          | _ \<Rightarrow>
              (case or_else (process_env ''ANTHROPIC_API_KEY'') (process_env ''CLAUDE_API_KEY'') of
                 Some (c # cs) \<Rightarrow>
                   process_env(''ANTHROPIC_API_KEY'' \<mapsto> c # cs, ''CLAUDE_API_KEY'' \<mapsto> c # cs)
               | _ \<Rightarrow> process_env))
         ++ map_of (case writeClaudeCredentialsFile w claudeAuth of
                      None \<Rightarrow> []
                    | Some w' \<Rightarrow>
                        obj_set (fst (prepareClaudeAuthEnvironment w'))
                          ''DEBUG_PRELOAD_SCRIPT'' ''0'')
     \<and> (\<exists>sdkMessages failure.
           query (env_during_call r) message []
             (case sessionId of Some (c # cs) \<Rightarrow> sessionId | _ \<Rightarrow> None)
             allowedTools
             (case workingDir of Some (c # cs) \<Rightarrow> workingDir | _ \<Rightarrow> None)
           = Sdk sdkMessages failure (env_after_call r))
     \<and> (\<forall>key. env_during_call r key \<noteq> process_env key \<longrightarrow> final_env r key = process_env key)
     \<and> (\<forall>key. key \<notin> set executor_variables \<longrightarrow>
            env_during_call r key = process_env key \<and> final_env r key = env_after_call r key))"
proof -
  obtain authEnv executableArgs where a: "auth_setup w claudeAuth = (authEnv, executableArgs)"
    by (cases "auth_setup w claudeAuth")
  have args: "executableArgs = []"
    using auth_setup_snd [of w claudeAuth] a by simp
  have shape: "authEnv = []
   \<or> authEnv = [(''DEBUG_PRELOAD_SCRIPT'', ''0'')]
   \<or> (\<exists>p n d. authEnv =
          [(''CLAUDE_CREDENTIALS_PATH'', p), (''DEBUG_PRELOAD_SCRIPT'', ''0''),
            (''NODE_OPTIONS'', n), (''CLAUDE_CONFIG_DIR'', d)])"
    using auth_setup_shape [of w claudeAuth] a by auto
  have authEnv: "authEnv =
     (case writeClaudeCredentialsFile w claudeAuth of
        None \<Rightarrow> []
      | Some w' \<Rightarrow> obj_set (fst (prepareClaudeAuthEnvironment w')) ''DEBUG_PRELOAD_SCRIPT'' ''0'')"
    using auth_setup_fst [of w claudeAuth] a by simp
  obtain originalEnv call_env
    where i: "install_auth_env authEnv (install_credentials claudeAuth process_env)
              = (originalEnv, call_env)"
    by (cases "install_auth_env authEnv (install_credentials claudeAuth process_env)")
  have call: "call_env = snd (install_credentials claudeAuth process_env) ++ map_of authEnv"
    using install_auth_env_env [OF shape, of "fst (install_credentials claudeAuth process_env)"
        "snd (install_credentials claudeAuth process_env)"] i
    by simp
  obtain sdkMessages failure env_left
    where q: "query call_env message executableArgs
               (case sessionId of Some (c # cs) \<Rightarrow> sessionId | _ \<Rightarrow> None)
               allowedTools
               (case workingDir of Some (c # cs) \<Rightarrow> workingDir | _ \<Rightarrow> None)
              = Sdk sdkMessages failure env_left"
    by (cases "query call_env message executableArgs
               (case sessionId of Some (c # cs) \<Rightarrow> sessionId | _ \<Rightarrow> None)
               allowedTools
               (case workingDir of Some (c # cs) \<Rightarrow> workingDir | _ \<Rightarrow> None)")
  have during: "env_during_call (executeClaudeCommand query w process_env message requestId
        requestAbortControllers sessionId allowedTools workingDir claudeAuth) = call_env"
    and after: "env_after_call (executeClaudeCommand query w process_env message requestId
        requestAbortControllers sessionId allowedTools workingDir claudeAuth) = env_left"
    and final: "final_env (executeClaudeCommand query w process_env message requestId
        requestAbortControllers sessionId allowedTools workingDir claudeAuth)
        = restore_env originalEnv env_left"
    using a i q by (simp_all add: executeClaudeCommand_def)
  have restored: "\<And>key. (call_env key \<noteq> process_env key \<longrightarrow>
                          restore_env originalEnv env_left key = process_env key)
       \<and> (key \<notin> set executor_variables \<longrightarrow>
            call_env key = process_env key \<and> restore_env originalEnv env_left key = env_left key)"
    by (rule restore_after_install [OF shape i])
  have installed: "call_env =
         (case map_option accessToken claudeAuth of
            Some (c # cs) \<Rightarrow>
              process_env(''CLAUDE_CODE_OAUTH_TOKEN'' \<mapsto> c # cs,
                          ''ANTHROPIC_API_KEY'' := None, ''CLAUDE_API_KEY'' := None)
          | _ \<Rightarrow>
              (case or_else (process_env ''ANTHROPIC_API_KEY'') (process_env ''CLAUDE_API_KEY'') of
                 Some (c # cs) \<Rightarrow>
                   process_env(''ANTHROPIC_API_KEY'' \<mapsto> c # cs, ''CLAUDE_API_KEY'' \<mapsto> c # cs)
               | _ \<Rightarrow> process_env))
         ++ map_of (case writeClaudeCredentialsFile w claudeAuth of
                      None \<Rightarrow> []
                    | Some w' \<Rightarrow>
                        obj_set (fst (prepareClaudeAuthEnvironment w'))
                          ''DEBUG_PRELOAD_SCRIPT'' ''0'')"
    using call authEnv install_credentials_env [of claudeAuth process_env] by simp
  have ran: "\<exists>sdkMessages failure.
           query call_env message []
             (case sessionId of Some (c # cs) \<Rightarrow> sessionId | _ \<Rightarrow> None)
             allowedTools
             (case workingDir of Some (c # cs) \<Rightarrow> workingDir | _ \<Rightarrow> None)
           = Sdk sdkMessages failure env_left"
    using q args by blast
  have mutated: "\<forall>key. call_env key \<noteq> process_env key \<longrightarrow>
                     restore_env originalEnv env_left key = process_env key"
    using restored by simp
  have others: "\<forall>key. key \<notin> set executor_variables \<longrightarrow>
                    call_env key = process_env key \<and> restore_env originalEnv env_left key = env_left key"
    using restored by simp
  show ?thesis
    unfolding Let_def during after final
    by (intro conjI) (rule installed, rule ran, rule mutated, rule others)
qed

lemmas example_local_defs =
  example_local_run_def executeClaudeCommand_def auth_setup_def writeClaudeCredentialsFile_def
  prepareClaudeAuthEnvironment_def install_credentials_def entrypoint_query_def
  example_world_def example_auth_def valid_date_def

text \<open>
  C9 (as stated, refuted). The SDK call writes \<^verbatim>\<open>CLAUDE_CODE_ENTRYPOINT\<close> into the process
  environment. The variable is not in \<^verbatim>\<open>originalEnv\<close>, so the \<^verbatim>\<open>finally\<close> block leaves it:
  the environment after the executor has run is not the environment before.
\<close>

theorem sdk_write_is_not_restored:
  "final_env example_local_run \<noteq> [''ANTHROPIC_API_KEY'' \<mapsto> ''sk-test'']"
proof -
  have "final_env example_local_run ''CLAUDE_CODE_ENTRYPOINT'' = Some ''sdk-ts''"
    by (simp add: example_local_defs)
  moreover have "[''ANTHROPIC_API_KEY'' \<mapsto> ''sk-test''] ''CLAUDE_CODE_ENTRYPOINT'' = None"
    by simp
  ultimately show ?thesis
    by (metis option.distinct(1))
qed

theorem credentials_installed_and_restored_witness:
  "env_during_call example_local_run ''CLAUDE_CODE_OAUTH_TOKEN'' = Some ''token-1''
   \<and> env_during_call example_local_run ''ANTHROPIC_API_KEY'' = None
   \<and> env_during_call example_local_run ''DEBUG_PRELOAD_SCRIPT'' = Some ''0''
   \<and> env_during_call example_local_run ''CLAUDE_CONFIG_DIR'' = Some ''/home/app/.claude-config''
   \<and> final_env example_local_run ''CLAUDE_CODE_OAUTH_TOKEN'' = None
   \<and> final_env example_local_run ''ANTHROPIC_API_KEY'' = Some ''sk-test''
   \<and> final_env example_local_run ''DEBUG_PRELOAD_SCRIPT'' = None
   \<and> final_env example_local_run ''CLAUDE_CODE_ENTRYPOINT''
       = env_after_call example_local_run ''CLAUDE_CODE_ENTRYPOINT''"
proof -
  note th = credentials_installed_and_restored [of entrypoint_query example_world
      "[''ANTHROPIC_API_KEY'' \<mapsto> ''sk-test'']" "''hello''" "''r1''" Map.empty None None None
      "Some example_auth", unfolded Let_def, folded example_local_run_def]
  have installed: "env_during_call example_local_run =
      [''ANTHROPIC_API_KEY'' \<mapsto> ''sk-test'']
        (''CLAUDE_CODE_OAUTH_TOKEN'' \<mapsto> ''token-1'', ''ANTHROPIC_API_KEY'' := None,
         ''CLAUDE_API_KEY'' := None)
      ++ map_of [(''CLAUDE_CREDENTIALS_PATH'', ''/home/app/.claude-credentials.json''),
                 (''DEBUG_PRELOAD_SCRIPT'', ''0''),
                 (''NODE_OPTIONS'', ''--require '' @ [CHR 0x22]
                     @ ''/app/dist/auth/preload-script.cjs'' @ [CHR 0x22]),
                 (''CLAUDE_CONFIG_DIR'', ''/home/app/.claude-config'')]"
    using th [THEN conjunct1]
    by (simp add: writeClaudeCredentialsFile_def prepareClaudeAuthEnvironment_def
        example_world_def example_auth_def valid_date_def escape_path_def)
  have mutated: "\<forall>key. env_during_call example_local_run key
                       \<noteq> [''ANTHROPIC_API_KEY'' \<mapsto> ''sk-test''] key
                     \<longrightarrow> final_env example_local_run key
                         = [''ANTHROPIC_API_KEY'' \<mapsto> ''sk-test''] key"
    using th [THEN conjunct2, THEN conjunct2, THEN conjunct1] .
  have others: "\<forall>key. key \<notin> set executor_variables \<longrightarrow>
        env_during_call example_local_run key = [''ANTHROPIC_API_KEY'' \<mapsto> ''sk-test''] key
        \<and> final_env example_local_run key = env_after_call example_local_run key"
    using th [THEN conjunct2, THEN conjunct2, THEN conjunct2] .
  have d1: "env_during_call example_local_run ''CLAUDE_CODE_OAUTH_TOKEN'' = Some ''token-1''"
    and d2: "env_during_call example_local_run ''ANTHROPIC_API_KEY'' = None"
    and d3: "env_during_call example_local_run ''DEBUG_PRELOAD_SCRIPT'' = Some ''0''"
    and d4: "env_during_call example_local_run ''CLAUDE_CONFIG_DIR'' = Some ''/home/app/.claude-config''"
    by (simp_all add: installed map_add_def)
  have f1: "final_env example_local_run ''CLAUDE_CODE_OAUTH_TOKEN'' = None"
    using mutated [THEN spec, of "''CLAUDE_CODE_OAUTH_TOKEN''"] d1 by simp
  have f2: "final_env example_local_run ''ANTHROPIC_API_KEY'' = Some ''sk-test''"
    using mutated [THEN spec, of "''ANTHROPIC_API_KEY''"] d2 by simp
  have f3: "final_env example_local_run ''DEBUG_PRELOAD_SCRIPT'' = None"
    using mutated [THEN spec, of "''DEBUG_PRELOAD_SCRIPT''"] d3 by simp
  have f4: "final_env example_local_run ''CLAUDE_CODE_ENTRYPOINT''
            = env_after_call example_local_run ''CLAUDE_CODE_ENTRYPOINT''"
    using others [THEN spec, of "''CLAUDE_CODE_ENTRYPOINT''"]
    by (simp add: executor_variables_def)
  show ?thesis
    using d1 d2 d3 d4 f1 f2 f3 f4 by simp
qed

section \<open>The cancellation registry\<close>

text \<open>
  C5. Once the generator of any of the three strategies has run to its end (normal
  completion, error or cancellation, early return included), \<^verbatim>\<open>requestAbortControllers\<close>
  has no entry for the request id.
\<close>

theorem registry_entry_released:
  "controllers (executeClaudeCommand query w process_env message requestId requestAbortControllers
                  sessionId allowedTools workingDir claudeAuth) requestId = None
   \<and> controllers (executeAgentHttpRequest parse fetch agent message requestId
                  requestAbortControllers sessionId claudeAuth) requestId = None
   \<and> controllers (executeOrchestratorWorkflow parse create process_env now message requestId
                  requestAbortControllers sessionId availableAgents) requestId = None"
  by (simp add: executeClaudeCommand_def executeAgentHttpRequest_def
      executeOrchestratorWorkflow_def cleanup_def split: prod.splits sdk_outcome.splits)

section \<open>One terminal event, last\<close>

















end
